theory Spec2Isabelle
  imports Complex_Main
begin

section \<open>Python values of \<^verbatim>\<open>main.py\<close>\<close>

text \<open>
  \<^verbatim>\<open>main.py\<close> is glue around four libraries: \<^verbatim>\<open>xml.etree.ElementTree\<close>, \<^verbatim>\<open>zipfile\<close>,
  \<^verbatim>\<open>shapely\<close> and the Python built-ins. The functions of the file are embedded below as
  they are written; every library call is a field of the record \<open>env\<close>, so that a
  theorem about the file holds for whatever the libraries compute.

  Conventions of the embedding.
  \<^item> A Python \<^verbatim>\<open>str\<close> and a Python \<^verbatim>\<open>bytes\<close> are both a \<open>string\<close>; a \<open>char\<close> of a
    \<^verbatim>\<open>str\<close> stands for one code point below 256.
  \<^item> A Python \<^verbatim>\<open>float\<close> is a rational number: arithmetic is exact, and there is no NaN
    and no infinity. Rounding errors of IEEE doubles are outside the embedding.
  \<^item> A raised exception is the \<open>Inl\<close> of a sum; \<open>Exn c m\<close> is an exception of class
    \<open>c\<close> whose \<^verbatim>\<open>str()\<close> is \<open>m\<close>.
\<close>

datatype exn_class =
  IndexError | AttributeError | ValueError | TypeError | ParseError
  | UnicodeDecodeError | BadZipFile | FileNotFoundError | KeyError

datatype exn = Exn exn_class string

fun exn_class_of :: "exn \<Rightarrow> exn_class" where
  "exn_class_of (Exn c m) = c"

fun str_exn :: "exn \<Rightarrow> string" where
  "str_exn (Exn c m) = m"

type_synonym coord = "rat \<times> rat"

subsection \<open>String methods\<close>

definition isspace :: "char \<Rightarrow> bool" where
  \<comment> \<open>\<^verbatim>\<open>str.isspace\<close> on the code points below 256\<close>
  "isspace c =
     (let n = (of_char c :: nat)
      in (9 \<le> n \<and> n \<le> 13) \<or> (28 \<le> n \<and> n \<le> 32) \<or> n = 133 \<or> n = 160)"

definition strip :: "string \<Rightarrow> string" where
  \<comment> \<open>\<^verbatim>\<open>s.strip()\<close>\<close>
  "strip s = rev (dropWhile isspace (rev (dropWhile isspace s)))"

fun split_ws_from :: "string \<Rightarrow> string \<Rightarrow> string list" where
  "split_ws_from cur [] = (if cur = [] then [] else [cur])"
| "split_ws_from cur (c # cs) =
     (if isspace c
      then (if cur = [] then split_ws_from [] cs else cur # split_ws_from [] cs)
      else split_ws_from (cur @ [c]) cs)"

definition split_ws :: "string \<Rightarrow> string list" where
  \<comment> \<open>\<^verbatim>\<open>s.split()\<close>: the maximal runs of characters that are not whitespace\<close>
  "split_ws s = split_ws_from [] s"

fun split_on_from :: "char \<Rightarrow> string \<Rightarrow> string \<Rightarrow> string list" where
  "split_on_from sep cur [] = [cur]"
| "split_on_from sep cur (c # cs) =
     (if c = sep then cur # split_on_from sep [] cs
      else split_on_from sep (cur @ [c]) cs)"

definition split_on :: "char \<Rightarrow> string \<Rightarrow> string list" where
  \<comment> \<open>\<^verbatim>\<open>s.split(sep)\<close> for a separator of one character: empty fields are kept\<close>
  "split_on sep s = split_on_from sep [] s"

definition endswith :: "string \<Rightarrow> string \<Rightarrow> bool" where
  \<comment> \<open>\<^verbatim>\<open>s.endswith(suf)\<close>\<close>
  "endswith s suf =
     (length suf \<le> length s \<and> drop (length s - length suf) s = suf)"

definition lower_char :: "char \<Rightarrow> char" where
  "lower_char c =
     (let n = (of_char c :: nat)
      in if (65 \<le> n \<and> n \<le> 90) \<or> (192 \<le> n \<and> n \<le> 222 \<and> n \<noteq> 215)
         then char_of (n + 32) else c)"

definition lower :: "string \<Rightarrow> string" where
  \<comment> \<open>\<^verbatim>\<open>s.lower()\<close> on the code points below 256\<close>
  "lower s = map lower_char s"

definition rfind :: "char \<Rightarrow> string \<Rightarrow> int" where
  \<comment> \<open>\<^verbatim>\<open>p.rfind(c)\<close>: the last index of \<open>c\<close>, or -1\<close>
  "rfind c p =
     (case filter (\<lambda>i. p ! i = c) (rev [0 ..< length p]) of
        [] \<Rightarrow> - 1
      | i # _ \<Rightarrow> int i)"

definition splitext :: "string \<Rightarrow> string \<times> string" where
  \<comment> \<open>\<^verbatim>\<open>os.path.splitext\<close> of \<^verbatim>\<open>posixpath\<close>: the extension starts at the last dot of the
      last path component, unless only dots precede it there\<close>
  "splitext p =
     (let sepIndex = rfind (CHR ''/'') p;
          dotIndex = rfind (CHR ''.'') p
      in if dotIndex > sepIndex
            \<and> list_ex (\<lambda>i. p ! i \<noteq> CHR ''.'') [nat (sepIndex + 1) ..< nat dotIndex]
         then (take (nat dotIndex) p, drop (nat dotIndex) p)
         else (p, []))"

subsection \<open>Element trees\<close>

text \<open>
  An \<^verbatim>\<open>Element\<close> of \<^verbatim>\<open>xml.etree.ElementTree\<close>: its tag in the form \<^verbatim>\<open>{namespace}local\<close>,
  its \<^verbatim>\<open>text\<close> (\<^verbatim>\<open>None\<close> when the element has no character data before its first
  child or its end tag) and its children in document order.
\<close>

datatype element =
  Element (elem_tag: string) (elem_text: "string option") (elem_children: "element list")

fun iter :: "element \<Rightarrow> element list" where
  \<comment> \<open>\<^verbatim>\<open>Element.iter()\<close>: the element, then its descendants, in document order\<close>
  "iter (Element t x cs) = Element t x cs # concat (map iter cs)"

definition kml_coordinates :: string where
  \<comment> \<open>the path step \<^verbatim>\<open>kml:coordinates\<close> under \<^verbatim>\<open>ns\<close>\<close>
  "kml_coordinates = ''{http://www.opengis.net/kml/2.2}coordinates''"

definition findall_coordinates :: "element \<Rightarrow> element list" where
  \<comment> \<open>\<^verbatim>\<open>root.findall(".//kml:coordinates", ns)\<close>: the path \<^verbatim>\<open>.//\<close> selects the elements
      on all levels beneath the context element, which is not itself selected\<close>
  "findall_coordinates root_elem =
     filter (\<lambda>e. elem_tag e = kml_coordinates)
       (concat (map iter (elem_children root_elem)))"

subsection \<open>The libraries\<close>

record env =
  fromstring :: "string \<Rightarrow> exn + element"
    \<comment> \<open>\<^verbatim>\<open>ET.fromstring\<close>; raises \<^verbatim>\<open>ParseError\<close> on text that is not well-formed\<close>
  py_float :: "string \<Rightarrow> exn + rat"
    \<comment> \<open>\<^verbatim>\<open>float(s)\<close>; raises \<^verbatim>\<open>ValueError\<close>\<close>
  decode_utf8 :: "string \<Rightarrow> exn + string"
    \<comment> \<open>decoding bytes as UTF-8; raises \<^verbatim>\<open>UnicodeDecodeError\<close>\<close>
  ZipFile :: "string \<Rightarrow> exn + (string \<times> string) list"
    \<comment> \<open>the members of an archive, name and uncompressed bytes, in the order of
        \<^verbatim>\<open>namelist()\<close>; raises \<^verbatim>\<open>BadZipFile\<close>\<close>
  tmp_name :: "string \<Rightarrow> string"
    \<comment> \<open>the path of \<^verbatim>\<open>tempfile.NamedTemporaryFile(delete=False, suffix=ext)\<close>\<close>
  Polygon :: "coord list \<Rightarrow> exn + coord list"
    \<comment> \<open>\<^verbatim>\<open>shapely.geometry.Polygon\<close> of a shell of \<open>(x, y)\<close> points\<close>
  area :: "coord list \<Rightarrow> rat"
    \<comment> \<open>\<^verbatim>\<open>poly.area\<close>\<close>
  centroid :: "coord list \<Rightarrow> coord"
    \<comment> \<open>\<^verbatim>\<open>(poly.centroid.x, poly.centroid.y)\<close>\<close>
  repr :: "rat \<Rightarrow> string"
    \<comment> \<open>the text of a float in an f-string\<close>

section \<open>\<^verbatim>\<open>parse_kml\<close>\<close>

fun mapE :: "('a \<Rightarrow> exn + 'b) \<Rightarrow> 'a list \<Rightarrow> exn + 'b list" where
  \<comment> \<open>a \<^verbatim>\<open>for\<close> loop that appends one result per item and stops at the first exception\<close>
  "mapE f [] = Inr []"
| "mapE f (x # xs) =
     (case f x of
        Inl e \<Rightarrow> Inl e
      | Inr y \<Rightarrow> (case mapE f xs of Inl e \<Rightarrow> Inl e | Inr ys \<Rightarrow> Inr (y # ys)))"

definition parse_line :: "env \<Rightarrow> string \<Rightarrow> exn + coord" where
  \<comment> \<open>the body of the inner loop: \<^verbatim>\<open>parts = line.split(",")\<close>,
      \<^verbatim>\<open>lon, lat = float(parts[0]), float(parts[1])\<close>, evaluated left to right\<close>
  "parse_line env line =
     (case split_on (CHR '','') line of
        [] \<Rightarrow> Inl (Exn IndexError ''list index out of range'')
      | p0 # rest \<Rightarrow>
          (case py_float env p0 of
             Inl e \<Rightarrow> Inl e
           | Inr lon \<Rightarrow>
               (case rest of
                  [] \<Rightarrow> Inl (Exn IndexError ''list index out of range'')
                | p1 # _ \<Rightarrow>
                    (case py_float env p1 of
                       Inl e \<Rightarrow> Inl e
                     | Inr lat \<Rightarrow> Inr (lon, lat)))))"

definition parse_elem :: "env \<Rightarrow> element \<Rightarrow> exn + coord list" where
  \<comment> \<open>the body of the outer loop: \<^verbatim>\<open>text = elem.text.strip()\<close>, then one pair per
      item of \<^verbatim>\<open>text.split()\<close>\<close>
  "parse_elem env elem =
     (case elem_text elem of
        None \<Rightarrow>
          Inl (Exn AttributeError
                (CHR 0x27 # ''NoneType' object has no attribute 'strip'' @ [CHR 0x27]))
      | Some t \<Rightarrow> mapE (parse_line env) (split_ws (strip t)))"

definition parse_kml :: "env \<Rightarrow> string \<Rightarrow> exn + coord list" where
  "parse_kml env kml_content =
     (case fromstring env kml_content of
        Inl e \<Rightarrow> Inl e
      | Inr root_elem \<Rightarrow>
          (case mapE (parse_elem env) (findall_coordinates root_elem) of
             Inl e \<Rightarrow> Inl e
           | Inr pss \<Rightarrow> Inr (concat pss)))"

section \<open>The readers\<close>

text \<open>The file system is a store from paths to file contents.\<close>

type_synonym filesystem = "string \<rightharpoonup> string"

fun universal_newlines :: "string \<Rightarrow> string" where
  \<comment> \<open>reading in text mode (\<^verbatim>\<open>open(filepath, "r")\<close>, \<^verbatim>\<open>newline=None\<close>): CR LF and a lone CR
      are read as LF\<close>
  "universal_newlines [] = []"
| "universal_newlines (c # cs) =
     (if c = CHR 0x0D
      then (case cs of
              [] \<Rightarrow> [CHR 0x0A]
            | d # ds \<Rightarrow>
                if d = CHR 0x0A then CHR 0x0A # universal_newlines ds
                else CHR 0x0A # universal_newlines cs)
      else c # universal_newlines cs)"

definition read_kml_file :: "env \<Rightarrow> filesystem \<Rightarrow> string \<Rightarrow> exn + coord list" where
  "read_kml_file env fs filepath =
     (case fs filepath of
        None \<Rightarrow> Inl (Exn FileNotFoundError filepath)
      | Some raw \<Rightarrow>
          (case decode_utf8 env raw of
             Inl e \<Rightarrow> Inl e
           | Inr s \<Rightarrow> parse_kml env (universal_newlines s)))"

definition read_member :: "env \<Rightarrow> (string \<times> string) list \<Rightarrow> string \<Rightarrow> exn + coord list" where
  \<comment> \<open>the body of the loop of \<^verbatim>\<open>read_kmz_file\<close> for a name that ends in \<^verbatim>\<open>.kml\<close>;
      \<^verbatim>\<open>z.open(name)\<close> is the last member of that name\<close>
  "read_member env members member_name =
     (case map_of (rev members) member_name of
        None \<Rightarrow> Inl (Exn KeyError member_name)
      | Some raw \<Rightarrow>
          (case decode_utf8 env raw of
             Inl e \<Rightarrow> Inl e
           | Inr content \<Rightarrow> parse_kml env content))"

definition read_kmz_file :: "env \<Rightarrow> filesystem \<Rightarrow> string \<Rightarrow> exn + coord list" where
  "read_kmz_file env fs filepath =
     (case fs filepath of
        None \<Rightarrow> Inl (Exn FileNotFoundError filepath)
      | Some raw \<Rightarrow>
          (case ZipFile env raw of
             Inl e \<Rightarrow> Inl e
           | Inr members \<Rightarrow>
               (case mapE (read_member env members)
                       (filter (\<lambda>n. endswith n ''.kml'') (map fst members)) of
                  Inl e \<Rightarrow> Inl e
                | Inr pss \<Rightarrow> Inr (concat pss))))"

datatype uploaded_file = UploadedFile (file_name: string) (file_bytes: string)

datatype file_arg = Path string | Upload uploaded_file

fun read_file :: "env \<Rightarrow> filesystem \<Rightarrow> file_arg \<Rightarrow> (exn + coord list option) \<times> filesystem" where
  \<comment> \<open>The result is the outcome and the file system left behind. \<open>Inr None\<close> is
      Python's \<^verbatim>\<open>None\<close>: for a \<^verbatim>\<open>str\<close>, \<^verbatim>\<open>bytes\<close> or \<^verbatim>\<open>os.PathLike\<close> argument the
      \<^verbatim>\<open>if\<close> has no other branch, and the function falls off its end.\<close>
  "read_file env fs (Path p) = (Inr None, fs)"
| "read_file env fs (Upload (UploadedFile filename raw)) =
     (let ext = lower (snd (splitext filename));
          tmp_path = tmp_name env ext;
          fs1 = fs(tmp_path \<mapsto> raw);
          res =
            (if ext = ''.kml'' then map_sum id Some (read_kml_file env fs1 tmp_path)
             else if ext = ''.kmz'' then map_sum id Some (read_kmz_file env fs1 tmp_path)
             else Inl (Exn ValueError ''El archivo debe ser .kml o .kmz''))
      in (res, fs1(tmp_path := None)))"

section \<open>\<^verbatim>\<open>calcular_superficie_hectareas\<close>\<close>

definition close_ring :: "'a list \<Rightarrow> exn + 'a list" where
  \<comment> \<open>\<^verbatim>\<open>if coords[0] != coords[-1]: coords.append(coords[0])\<close>; the value is the list
      after the statement\<close>
  "close_ring coords =
     (case coords of
        [] \<Rightarrow> Inl (Exn IndexError ''list index out of range'')
      | c # _ \<Rightarrow> if c \<noteq> last coords then Inr (coords @ [c]) else Inr coords)"

definition round_half_even :: "rat \<Rightarrow> int" where
  "round_half_even x =
     (let f = \<lfloor>x\<rfloor>; d = x - of_int f
      in if d < 1 / 2 then f
         else if 1 / 2 < d then f + 1
         else if even f then f else f + 1)"

definition py_round :: "rat \<Rightarrow> nat \<Rightarrow> rat" where
  \<comment> \<open>\<^verbatim>\<open>round(x, ndigits)\<close> in exact arithmetic: to the nearest multiple of
      \<open>10 ^ -ndigits\<close>, a tie to the even one\<close>
  "py_round x ndigits = of_int (round_half_even (x * 10 ^ ndigits)) / 10 ^ ndigits"

definition calcular_superficie_hectareas ::
    "env \<Rightarrow> coord list \<Rightarrow> (exn + rat \<times> string) \<times> coord list" where
  \<comment> \<open>The result is the outcome, \<open>(area_ha, centroid)\<close> or the exception, and the
      argument list as the call leaves it: the list is changed in place.
      \<^verbatim>\<open>print(centroid)\<close> is left out.\<close>
  "calcular_superficie_hectareas env coords =
     (case close_ring coords of
        Inl e \<Rightarrow> (Inl e, coords)
      | Inr coords1 \<Rightarrow>
          (case Polygon env (map (\<lambda>(lat, lon). (lon, lat)) coords1) of
             Inl e \<Rightarrow> (Inl e, coords1)
           | Inr poly \<Rightarrow>
               (let area_ha = py_round (area env poly * 1000000) 1;
                    x = fst (centroid env poly);
                    y = snd (centroid env poly);
                    centroid_str = repr env y @ '', '' @ repr env x
                in (Inr (area_ha, centroid_str), coords1))))"

section \<open>The \<^verbatim>\<open>Transformar\<close> block\<close>

record report_row =
  Archivo :: string
  Poligono :: "coord list"
  Punto_Referencia :: string
  Superficie :: rat

type_synonym batch_state = "report_row list \<times> string list \<times> filesystem"

fun procesar :: "env \<Rightarrow> batch_state \<Rightarrow> uploaded_file \<Rightarrow> batch_state" where
  \<comment> \<open>the body of \<^verbatim>\<open>for file in uploaded_files\<close>, on the table \<^verbatim>\<open>df\<close>, the list
      \<^verbatim>\<open>errores\<close> and the file system; \<^verbatim>\<open>except Exception\<close> catches every exception of
      the embedding\<close>
  "procesar env (df, errores, fs) (UploadedFile filename raw) =
     (if \<not> (endswith filename ''.kmz'' \<or> endswith filename ''.kml'')
      then (df, errores @ [filename], fs)
      else
        (case read_file env fs (Upload (UploadedFile filename raw)) of
           (Inl e, fs1) \<Rightarrow>
             (df, errores @ [filename @ '' (error: '' @ str_exn e @ '')''], fs1)
         | (Inr None, fs1) \<Rightarrow>
             (df, errores @ [filename @ '' (error: '' @
                 (CHR 0x27 # ''NoneType' object is not subscriptable'') @ '')''], fs1)
         | (Inr (Some coords), fs1) \<Rightarrow>
             (case calcular_superficie_hectareas env coords of
                (Inl e, coords1) \<Rightarrow>
                  (df, errores @ [filename @ '' (error: '' @ str_exn e @ '')''], fs1)
              | (Inr (sup_ha, centroid_str), coords1) \<Rightarrow>
                  (df @ [\<lparr>Archivo = filename, Poligono = coords1,
                          Punto_Referencia = centroid_str, Superficie = sup_ha\<rparr>],
                   errores, fs1))))"

definition transformar :: "env \<Rightarrow> filesystem \<Rightarrow> uploaded_file list \<Rightarrow> batch_state" where
  "transformar env fs uploaded_files = foldl (procesar env) ([], [], fs) uploaded_files"

section \<open>What the specification says of a coordinate token\<close>

definition valid_token :: "env \<Rightarrow> string \<Rightarrow> bool" where
  \<comment> \<open>a token that splits into at least two comma-separated fields, the first two of
      them accepted by \<^verbatim>\<open>float\<close>\<close>
  "valid_token env tok =
     (2 \<le> length (split_on (CHR '','') tok)
      \<and> isl (py_float env (split_on (CHR '','') tok ! 0)) = False
      \<and> isl (py_float env (split_on (CHR '','') tok ! 1)) = False)"

definition token_pair :: "env \<Rightarrow> string \<Rightarrow> coord" where
  \<comment> \<open>\<open>(float(lon), float(lat))\<close> of a valid token \<^verbatim>\<open>lon,lat\<close> or \<^verbatim>\<open>lon,lat,alt\<close>\<close>
  "token_pair env tok =
     (projr (py_float env (split_on (CHR '','') tok ! 0)),
      projr (py_float env (split_on (CHR '','') tok ! 1)))"

definition valid_coordinates :: "env \<Rightarrow> element \<Rightarrow> bool" where
  \<comment> \<open>a coordinates element that has text, all of whose tokens are valid\<close>
  "valid_coordinates env e =
     (case elem_text e of
        None \<Rightarrow> False
      | Some t \<Rightarrow> list_all (valid_token env) (split_ws t))"

section \<open>Planar geometry\<close>

text \<open>
  Modelled from the spec: \<^verbatim>\<open>shapely\<close> is not part of the repository. Section 4.3 of the
  specification describes what \<^verbatim>\<open>main.py\<close> expects of it: the area of a polygon is the
  absolute value of the shoelace (signed area) formula on its ring, and its centroid is
  the area-weighted centroid of the standard formula.
\<close>

fun shoelace2 :: "coord list \<Rightarrow> rat" where
  \<comment> \<open>twice the signed area of a ring of \<open>(x, y)\<close> points\<close>
  "shoelace2 (p # q # ps) = (fst p * snd q - fst q * snd p) + shoelace2 (q # ps)"
| "shoelace2 ps = 0"

definition shoelace_area :: "coord list \<Rightarrow> rat" where
  "shoelace_area ring = \<bar>shoelace2 ring\<bar> / 2"

fun centroid_sums :: "coord list \<Rightarrow> rat \<times> rat" where
  "centroid_sums (p # q # ps) =
     (let w = fst p * snd q - fst q * snd p;
          (sx, sy) = centroid_sums (q # ps)
      in ((fst p + fst q) * w + sx, (snd p + snd q) * w + sy))"
| "centroid_sums ps = (0, 0)"

definition shoelace_centroid :: "coord list \<Rightarrow> coord" where
  \<comment> \<open>meaningful for a ring whose signed area is not zero\<close>
  "shoelace_centroid ring =
     (let a2 = shoelace2 ring; (sx, sy) = centroid_sums ring
      in (sx / (3 * a2), sy / (3 * a2)))"

section \<open>A sample of the libraries\<close>

text \<open>
  To run the embedding on concrete files the fields of \<open>env\<close> need values. Each
  function below answers on a small part of the domain of the library function it
  stands for, as that function does there (in exact arithmetic), and refuses every
  other argument; the theorems that hold for every \<open>env\<close> do not depend on them.
\<close>

definition planar_Polygon :: "coord list \<Rightarrow> exn + coord list" where
  \<comment> \<open>answers for closed rings of at least four coordinates and of non-zero area\<close>
  "planar_Polygon shell =
     (if length shell < 4
      then Inl (Exn ValueError ''A linearring requires at least 4 coordinates.'')
      else if shoelace2 shell = 0 \<or> hd shell \<noteq> last shell
      then Inl (Exn ValueError ''ring outside the sample'')
      else Inr shell)"

definition digit_char :: "nat \<Rightarrow> char" where
  "digit_char d = char_of (48 + d)"

function nat_str :: "nat \<Rightarrow> string" where
  "nat_str n =
     (if n < 10 then [digit_char n] else nat_str (n div 10) @ [digit_char (n mod 10)])"
  by pat_completeness auto
termination
  by (relation "measure id") auto

fun frac_digits :: "nat \<Rightarrow> rat \<Rightarrow> string" where
  "frac_digits 0 x = []"
| "frac_digits (Suc k) x =
     (if x = 0 then []
      else (let y = x * 10; d = \<lfloor>y\<rfloor>
            in digit_char (nat d) # frac_digits k (y - of_int d)))"

definition decimal_repr :: "rat \<Rightarrow> string" where
  \<comment> \<open>the text of a float that is a short decimal fraction: \<^verbatim>\<open>1.0\<close>, \<^verbatim>\<open>0.5\<close>, \<^verbatim>\<open>-34.25\<close>\<close>
  "decimal_repr r =
     (let a = \<bar>r\<bar>; ip = \<lfloor>a\<rfloor>; fr = a - of_int ip
      in (if r < 0 then ''-'' else []) @ nat_str (nat ip) @ ''.''
         @ (if fr = 0 then ''0'' else frac_digits 17 fr))"

definition is_digit :: "char \<Rightarrow> bool" where
  "is_digit c = (let n = (of_char c :: nat) in 48 \<le> n \<and> n \<le> 57)"

fun digits_value :: "int \<Rightarrow> string \<Rightarrow> int" where
  "digits_value acc [] = acc"
| "digits_value acc (c # cs) = digits_value (acc * 10 + (of_char c - 48)) cs"

definition decimal_float :: "string \<Rightarrow> exn + rat" where
  \<comment> \<open>\<^verbatim>\<open>float\<close> on the literals \<^verbatim>\<open>[-]digits[.digits]\<close>\<close>
  "decimal_float s =
     (let neg = (take 1 s = ''-'');
          body = (if neg then drop 1 s else s);
          ip = takeWhile (\<lambda>c. c \<noteq> CHR ''.'') body;
          fp = drop 1 (dropWhile (\<lambda>c. c \<noteq> CHR ''.'') body)
      in if ip @ fp \<noteq> [] \<and> list_all is_digit (ip @ fp)
         then Inr ((if neg then - 1 else 1)
                    * (of_int (digits_value 0 (ip @ fp)) / 10 ^ length fp))
         else Inl (Exn ValueError
                    (''could not convert string to float: '' @ [CHR 0x27] @ s @ [CHR 0x27])))"

definition ascii_decode :: "string \<Rightarrow> exn + string" where
  \<comment> \<open>UTF-8 decoding of bytes below 128\<close>
  "ascii_decode raw =
     (if list_all (\<lambda>c. (of_char c :: nat) < 128) raw then Inr raw
      else Inl (Exn UnicodeDecodeError ''bytes outside the sample''))"

definition kml_open :: string where
  \<open>kml_open = ''<kml xmlns="http://www.opengis.net/kml/2.2"><Placemark><coordinates>''\<close>

definition kml_close :: string where
  "kml_close = ''</coordinates></Placemark></kml>''"

definition kml_document :: "string \<Rightarrow> string" where
  \<comment> \<open>a KML document with one placemark, whose coordinates element holds \<open>body\<close>\<close>
  "kml_document body = kml_open @ body @ kml_close"

definition bare_open :: string where
  \<open>bare_open = ''<coordinates xmlns="http://www.opengis.net/kml/2.2">''\<close>

definition bare_close :: string where
  "bare_close = ''</coordinates>''"

definition bare_document :: "string \<Rightarrow> string" where
  \<comment> \<open>a document whose root element is the coordinates element\<close>
  "bare_document body = bare_open @ body @ bare_close"

definition between :: "string \<Rightarrow> string \<Rightarrow> string \<Rightarrow> string option" where
  "between pre suf s =
     (if length pre + length suf \<le> length s
         \<and> take (length pre) s = pre \<and> drop (length s - length suf) s = suf
      then Some (take (length s - length pre - length suf) (drop (length pre) s))
      else None)"

definition character_data :: "string \<Rightarrow> bool" where
  "character_data body = list_all (\<lambda>c. c \<noteq> CHR ''<'' \<and> c \<noteq> CHR ''&'') body"

definition text_of :: "string \<Rightarrow> string option" where
  \<comment> \<open>the \<^verbatim>\<open>text\<close> of an element with this character data: \<^verbatim>\<open>None\<close> when there is none,
      and line ends normalised to LF by the parser\<close>
  "text_of body = (if body = [] then None else Some (universal_newlines body))"

definition is_letter :: "char \<Rightarrow> bool" where
  "is_letter c =
     (let n = (of_char c :: nat) in (65 \<le> n \<and> n \<le> 90) \<or> (97 \<le> n \<and> n \<le> 122))"

definition sample_fromstring :: "string \<Rightarrow> exn + element" where
  \<comment> \<open>\<^verbatim>\<open>ET.fromstring\<close> on \<open>kml_document body\<close> and \<open>bare_document body\<close> with \<open>body\<close>
      free of markup, and on text that starts with a letter\<close>
  "sample_fromstring s =
     (case between kml_open kml_close s of
        Some body \<Rightarrow>
          if character_data body
          then Inr (Element ''{http://www.opengis.net/kml/2.2}kml'' None
                     [Element ''{http://www.opengis.net/kml/2.2}Placemark'' None
                        [Element kml_coordinates (text_of body) []]])
          else Inl (Exn ParseError ''document outside the sample'')
      | None \<Rightarrow>
          (case between bare_open bare_close s of
             Some body \<Rightarrow>
               if character_data body
               then Inr (Element kml_coordinates (text_of body) [])
               else Inl (Exn ParseError ''document outside the sample'')
           | None \<Rightarrow>
               if list_ex is_letter (take 1 s)
               then Inl (Exn ParseError ''syntax error: line 1, column 0'')
               else Inl (Exn ParseError ''document outside the sample'')))"

definition sample_kml :: string where
  \<comment> \<open>a KML document of a unit square, one \<^verbatim>\<open>lon,lat,alt\<close> token per line, the lines
      ended by CR LF\<close>
  "sample_kml =
     kml_document
       (''0,0,0'' @ [CHR 0x0D, CHR 0x0A] @ ''0,1,0'' @ [CHR 0x0D, CHR 0x0A]
        @ ''1,1,0'' @ [CHR 0x0D, CHR 0x0A] @ ''1,0,0'' @ [CHR 0x0D, CHR 0x0A])"

definition sample_archive :: string where
  \<comment> \<open>stands for the bytes of a KMZ archive of two members\<close>
  "sample_archive = ''PK (doc.kml, files/icon.png)''"

definition sample_ZipFile :: "string \<Rightarrow> exn + (string \<times> string) list" where
  \<comment> \<open>\<^verbatim>\<open>zipfile.ZipFile\<close> on \<open>sample_archive\<close>, and on bytes that do not start with the
      signature \<^verbatim>\<open>PK\<close>\<close>
  "sample_ZipFile raw =
     (if raw = sample_archive
      then Inr [(''doc.kml'', sample_kml), (''files/icon.png'', ''PNG'')]
      else if take 2 raw = ''PK''
      then Inl (Exn BadZipFile ''archive outside the sample'')
      else Inl (Exn BadZipFile ''File is not a zip file''))"

definition sample_env :: env where
  "sample_env =
     \<lparr>fromstring = sample_fromstring,
      py_float = decimal_float,
      decode_utf8 = ascii_decode,
      ZipFile = sample_ZipFile,
      tmp_name = (\<lambda>ext. ''/tmp/tmpk3x9vq_a'' @ ext),
      Polygon = planar_Polygon,
      area = shoelace_area,
      centroid = shoelace_centroid,
      repr = decimal_repr\<rparr>"

section \<open>What \<^verbatim>\<open>parse_kml\<close> returns\<close>

lemma split_ws_from_dropWhile:
  "split_ws_from [] (dropWhile isspace s) = split_ws_from [] s"
  by (induction s) auto

lemma split_ws_from_snoc_space:
  "isspace c \<Longrightarrow> split_ws_from cur (s @ [c]) = split_ws_from cur s"
  by (induction s arbitrary: cur) auto

lemma split_ws_from_rstrip:
  "split_ws_from cur (rev (dropWhile isspace (rev s))) = split_ws_from cur s"
proof (induction s rule: rev_induct)
  case Nil
  then show ?case by simp
next
  case (snoc x xs)
  then show ?case by (cases "isspace x") (simp_all add: split_ws_from_snoc_space)
qed

lemma split_ws_strip: "split_ws (strip t) = split_ws t"
  by (simp add: split_ws_def strip_def split_ws_from_rstrip split_ws_from_dropWhile)

lemma mapE_Inr_iff:
  "mapE f xs = Inr ys \<longleftrightarrow> list_all (\<lambda>x. \<not> isl (f x)) xs \<and> ys = map (\<lambda>x. projr (f x)) xs"
proof (induction xs arbitrary: ys)
  case Nil
  then show ?case by auto
next
  case (Cons x xs)
  show ?case
  proof (cases "f x")
    case (Inl e)
    then show ?thesis by simp
  next
    case (Inr y)
    then show ?thesis
      using Cons.IH by (cases "mapE f xs") auto
  qed
qed

lemma mapE_Inl_iff:
  "(\<exists>e. mapE f xs = Inl e) \<longleftrightarrow> list_ex (\<lambda>x. isl (f x)) xs"
proof (induction xs)
  case Nil
  then show ?case by simp
next
  case (Cons x xs)
  then show ?case by (cases "f x"; cases "mapE f xs") auto
qed

lemma split_on_from_not_Nil: "split_on_from sep cur s \<noteq> []"
  by (induction s arbitrary: cur) auto

lemma parse_line_Inr_iff:
  "parse_line env tok = Inr c \<longleftrightarrow> valid_token env tok \<and> c = token_pair env tok"
proof (cases "split_on (CHR '','') tok")
  case Nil
  then show ?thesis by (simp add: split_on_def split_on_from_not_Nil)
next
  case (Cons p0 rest)
  note ps = this
  show ?thesis
  proof (cases rest)
    case Nil
    with ps show ?thesis
      by (auto simp: parse_line_def valid_token_def token_pair_def split: sum.splits)
  next
    case (Cons p1 more)
    with ps show ?thesis
      by (cases "py_float env p0"; cases "py_float env p1")
         (auto simp: parse_line_def valid_token_def token_pair_def)
  qed
qed

lemma parse_line_not_isl: "\<not> isl (parse_line env tok) \<longleftrightarrow> valid_token env tok"
proof (cases "parse_line env tok")
  case (Inl e)
  then show ?thesis using parse_line_Inr_iff [of env tok "token_pair env tok"] by simp
next
  case (Inr c)
  then show ?thesis using parse_line_Inr_iff [of env tok c] by simp
qed

lemma parse_line_projr: "valid_token env tok \<Longrightarrow> projr (parse_line env tok) = token_pair env tok"
  using parse_line_Inr_iff [of env tok "token_pair env tok"] by simp

lemma parse_elem_Inr_iff:
  "parse_elem env e = Inr cs \<longleftrightarrow>
     valid_coordinates env e \<and> cs = map (token_pair env) (split_ws (the (elem_text e)))"
proof (cases "elem_text e")
  case None
  then show ?thesis by (simp add: parse_elem_def valid_coordinates_def)
next
  case (Some t)
  have "list_all (\<lambda>x. \<not> isl (parse_line env x)) (split_ws t) = list_all (valid_token env) (split_ws t)"
    by (simp add: parse_line_not_isl)
  moreover have "list_all (valid_token env) (split_ws t) \<Longrightarrow>
      map (\<lambda>x. projr (parse_line env x)) (split_ws t) = map (token_pair env) (split_ws t)"
    by (simp add: list_all_iff parse_line_projr)
  ultimately show ?thesis
    using Some by (auto simp: parse_elem_def valid_coordinates_def mapE_Inr_iff split_ws_strip)
qed

lemma parse_elem_not_isl: "\<not> isl (parse_elem env e) \<longleftrightarrow> valid_coordinates env e"
proof (cases "parse_elem env e")
  case (Inl x)
  then show ?thesis
    using parse_elem_Inr_iff [of env e "map (token_pair env) (split_ws (the (elem_text e)))"]
    by simp
next
  case (Inr cs)
  then show ?thesis using parse_elem_Inr_iff [of env e cs] by simp
qed

lemma parse_elem_projr:
  "valid_coordinates env e \<Longrightarrow>
     projr (parse_elem env e) = map (token_pair env) (split_ws (the (elem_text e)))"
  using parse_elem_Inr_iff [of env e "map (token_pair env) (split_ws (the (elem_text e)))"]
  by simp

lemma parse_kml_Inr_iff:
  "parse_kml env doc = Inr cs \<longleftrightarrow>
     (\<exists>root_elem. fromstring env doc = Inr root_elem
        \<and> list_all (valid_coordinates env) (findall_coordinates root_elem)
        \<and> cs = concat (map (\<lambda>e. map (token_pair env) (split_ws (the (elem_text e))))
                        (findall_coordinates root_elem)))"
proof (cases "fromstring env doc")
  case (Inl e)
  then show ?thesis by (simp add: parse_kml_def)
next
  case (Inr r)
  have a: "list_all (\<lambda>x. \<not> isl (parse_elem env x)) (findall_coordinates r)
           = list_all (valid_coordinates env) (findall_coordinates r)"
    by (simp add: parse_elem_not_isl)
  have b: "list_all (valid_coordinates env) (findall_coordinates r) \<Longrightarrow>
      map (\<lambda>x. projr (parse_elem env x)) (findall_coordinates r)
      = map (\<lambda>e. map (token_pair env) (split_ws (the (elem_text e)))) (findall_coordinates r)"
    by (simp add: list_all_iff parse_elem_projr)
  show ?thesis
  proof (cases "mapE (parse_elem env) (findall_coordinates r)")
    case (Inl e)
    then have "\<not> list_all (\<lambda>x. \<not> isl (parse_elem env x)) (findall_coordinates r)"
      using mapE_Inr_iff [of "parse_elem env" "findall_coordinates r"] by auto
    with Inl Inr a show ?thesis by (simp add: parse_kml_def)
  next
    case (Inr pss)
    then have v: "list_all (\<lambda>x. \<not> isl (parse_elem env x)) (findall_coordinates r)"
      and p: "pss = map (\<lambda>x. projr (parse_elem env x)) (findall_coordinates r)"
      using mapE_Inr_iff [of "parse_elem env" "findall_coordinates r" pss] by auto
    from v a have v': "list_all (valid_coordinates env) (findall_coordinates r)"
      by blast
    from p b [OF v'] have
      "pss = map (\<lambda>e. map (token_pair env) (split_ws (the (elem_text e)))) (findall_coordinates r)"
      by (rule trans)
    with Inr \<open>fromstring env doc = Inr r\<close> v' show ?thesis
      by (auto simp: parse_kml_def)
  qed
qed

section \<open>The closure step\<close>

lemma close_ring_Inr:
  "close_ring coords = Inr ring \<Longrightarrow>
     coords \<noteq> [] \<and> ring = (if hd coords = last coords then coords else coords @ [hd coords])"
  by (cases coords) (auto simp: close_ring_def split: if_splits)

lemma close_ring_closed:
  "ring \<noteq> [] \<Longrightarrow> hd ring = last ring \<Longrightarrow> close_ring ring = Inr ring"
  by (cases ring) (auto simp: close_ring_def)

lemma close_ring_Nil: "close_ring [] = Inl (Exn IndexError ''list index out of range'')"
  by (simp add: close_ring_def)

text \<open>
  Claim C7. On a non-empty sequence the closure step appends the first coordinate
  exactly when first and last coordinate are not equal on both components; the ring it
  leaves is closed, so running the step on it again changes nothing. The ring is the
  list that \<open>calcular_superficie_hectareas\<close> leaves in its argument.
\<close>

theorem closure_step_idempotent:
  fixes coords :: "coord list"
  assumes "close_ring coords = Inr ring"
  shows "ring = (if fst (hd coords) = fst (last coords) \<and> snd (hd coords) = snd (last coords)
                 then coords else coords @ [hd coords])
         \<and> close_ring ring = Inr ring
         \<and> snd (calcular_superficie_hectareas env coords) = ring"
proof -
  from assms have ne: "coords \<noteq> []"
    and r: "ring = (if hd coords = last coords then coords else coords @ [hd coords])"
    using close_ring_Inr by blast+
  have eq: "(hd coords = last coords) =
            (fst (hd coords) = fst (last coords) \<and> snd (hd coords) = snd (last coords))"
    by (simp add: prod_eq_iff)
  have closed: "ring \<noteq> [] \<and> hd ring = last ring"
    using ne r by (cases "hd coords = last coords") auto
  have "snd (calcular_superficie_hectareas env coords) = ring"
    using assms by (simp add: calcular_superficie_hectareas_def Let_def split: sum.splits)
  moreover have "close_ring ring = Inr ring"
    using closed close_ring_closed by blast
  moreover have "ring = (if fst (hd coords) = fst (last coords) \<and> snd (hd coords) = snd (last coords)
                 then coords else coords @ [hd coords])"
    using r eq by simp
  ultimately show ?thesis by blast
qed

theorem closure_step_idempotent_witness:
  "close_ring [(0, 0), (0, 1), (1, 1), (1, 0) :: coord]
     = Inr [(0, 0), (0, 1), (1, 1), (1, 0), (0, 0)]
   \<and> close_ring [(0, 0), (0, 1), (1, 1), (1, 0), (0, 0) :: coord]
       = Inr [(0, 0), (0, 1), (1, 1), (1, 0), (0, 0)]
   \<and> snd (calcular_superficie_hectareas sample_env [(0, 0), (0, 1), (1, 1), (1, 0)])
       = [(0, 0), (0, 1), (1, 1), (1, 0), (0, 0)]"
proof -
  have h: "close_ring [(0, 0), (0, 1), (1, 1), (1, 0) :: coord]
             = Inr [(0, 0), (0, 1), (1, 1), (1, 0), (0, 0)]"
    by (simp add: close_ring_def)
  from closure_step_idempotent [OF h, of sample_env] h show ?thesis by simp
qed

end
